theory Spec2Isabelle
  imports Main
begin

section \<open>The client-side RPC message subject\<close>

text \<open>
  A shallow embedding of \<^verbatim>\<open>RpcMessageSubject\<close>
  (packages/rpc/src/client/message-subject.ts). The class has three mutable fields
  (\<^verbatim>\<open>uncatchedNext\<close>, \<^verbatim>\<open>onReplyCallback\<close>, \<^verbatim>\<open>rejected\<close>) and two callbacks given
  to the constructor (\<^verbatim>\<open>continuation\<close>, \<^verbatim>\<open>release\<close>). Every method is a function from
  the state to the new state; a method that can let an exception escape also returns the
  exception (\<open>Some e\<close>) together with the state reached when it was thrown, since the
  assignments made before a JavaScript \<^verbatim>\<open>throw\<close> stay in force. The method
  \<^verbatim>\<open>send\<close> only hands its arguments to \<^verbatim>\<open>continuation\<close> and reads or writes no
  field; it is left out.
\<close>

subsection \<open>Messages, errors and settled results\<close>

type_synonym schema = nat
type_synonym body = nat

text \<open>
  The expected type named by an \<^verbatim>\<open>UnexpectedMessageType\<close> error: the literal text
  \<^verbatim>\<open>Ack\<close> in \<^verbatim>\<open>ackThenClose\<close>, the number \<^verbatim>\<open>type\<close> in the two typed accessors.
\<close>

datatype expected = ExpectedAck | ExpectedType nat

text \<open>
  Error values. \<open>UnexpectedMessageType exp actual\<close> stands for the error built from the
  template \<^verbatim>\<open>Expected message type ${exp}, but received ${actual}\<close>; \<open>RpcError\<close> carries
  its message; \<open>ExternalError\<close> is any error value made outside this class (carried by
  an error reply, raised by a body parser, or passed to \<^verbatim>\<open>disconnect\<close>).
\<close>

datatype err = RpcError string | UnexpectedMessageType expected nat | ExternalError nat

text \<open>
  \<^verbatim>\<open>RpcMessage\<close> is declared in protocol.ts, which is not part of the sources at hand;
  the class uses only its field \<^verbatim>\<open>type\<close> and its methods \<^verbatim>\<open>isError()\<close>,
  \<^verbatim>\<open>getError()\<close> and \<^verbatim>\<open>parseBody(schema)\<close>, which are taken as the components of a
  message. \<^verbatim>\<open>parseBody\<close> either returns the parsed body or throws.
\<close>

record message =
  mtype :: nat
  isError :: bool
  getError :: err
  parseBody :: "schema \<Rightarrow> err + body"

datatype val = Undefined | RawMessage message | Parsed body

datatype outcome = Resolved val | Rejected err

subsection \<open>Callbacks\<close>

text \<open>
  The reply listeners that can be stored in \<^verbatim>\<open>onReplyCallback\<close>: the prototype method
  (which buffers, and which \<^verbatim>\<open>catchOnReplyCallback\<close> is bound to), \<^verbatim>\<open>noop\<close>, the arrow
  function of each of the four accessors (closed over the promise it settles and over
  \<^verbatim>\<open>type\<close> and \<^verbatim>\<open>schema\<close>), and a callback of the caller's passed to \<^verbatim>\<open>onReply\<close>. A
  caller's callback is opaque: it is identified by a number, its invocations are
  recorded, it returns normally and does not touch the subject.
\<close>

datatype listener =
    Buffering
  | Noop
  | AckThenCloseListener nat
  | WaitNextMessageListener nat
  | WaitNextListener nat nat "schema option"
  | FirstThenCloseListener nat nat "schema option"
  | CustomListener nat

text \<open>
  The rejection callbacks that can be stored in \<^verbatim>\<open>rejected\<close>: the \<^verbatim>\<open>reject\<close> function
  of an accessor's promise, or a callback of the caller's passed to \<^verbatim>\<open>onRejected\<close>.
\<close>

datatype rejection = RejectPromise nat | CustomRejected nat

subsection \<open>State\<close>

text \<open>
  The first three fields are the fields of the class. The others record what the subject
  does to its surroundings: \<open>released\<close> counts the invocations of the \<^verbatim>\<open>release\<close>
  callback, \<open>promises\<close> holds the promises made by the accessors (\<open>None\<close> is pending),
  \<open>replyCalls\<close> and \<open>rejectCalls\<close> list the invocations of reply listeners and of
  rejection callbacks, in order.
\<close>

record subject =
  uncatchedNext :: "message option"
  onReplyCallback :: listener
  rejected :: "rejection option"
  released :: nat
  promises :: "outcome option list"
  replyCalls :: "(listener \<times> message) list"
  rejectCalls :: "(rejection \<times> err) list"

text \<open>The constructor: no buffered reply, the buffering listener, no rejection callback.\<close>

definition new_subject :: subject where
  "new_subject = \<lparr> uncatchedNext = None, onReplyCallback = Buffering, rejected = None,
     released = 0, promises = [], replyCalls = [], rejectCalls = [] \<rparr>"

definition release :: "subject \<Rightarrow> subject" where
  "release s = s\<lparr>released := released s + 1\<rparr>"

subsection \<open>Promises\<close>

text \<open>
  Modelled from the spec: \<^verbatim>\<open>asyncOperation\<close> of @deepkit/core is not part of the sources
  at hand. The spec describes its result as a single-resolution asynchronous result,
  resolved or failed exactly once: the first call of \<^verbatim>\<open>resolve\<close> or \<^verbatim>\<open>reject\<close> settles
  it and later calls change nothing. An exception that escapes the executor rejects the
  result, as for the executor of a JavaScript promise.
\<close>

definition settle :: "nat \<Rightarrow> outcome \<Rightarrow> subject \<Rightarrow> subject" where
  "settle p out s =
     (if p < length (promises s) \<and> promises s ! p = None
      then s\<lparr>promises := (promises s)[p := Some out]\<rparr> else s)"

definition resolve :: "nat \<Rightarrow> val \<Rightarrow> subject \<Rightarrow> subject" where
  "resolve p v s = settle p (Resolved v) s"

definition reject :: "nat \<Rightarrow> err \<Rightarrow> subject \<Rightarrow> subject" where
  "reject p e s = settle p (Rejected e) s"

definition promise :: "subject \<Rightarrow> nat \<Rightarrow> outcome option" where
  "promise s p = (if p < length (promises s) then promises s ! p else None)"

definition asyncOperation ::
  "(nat \<Rightarrow> subject \<Rightarrow> err option \<times> subject) \<Rightarrow> subject \<Rightarrow> nat \<times> subject" where
  "asyncOperation executor s =
     (let p = length (promises s);
          s1 = s\<lparr>promises := promises s @ [None]\<rparr>
      in case executor p s1 of
           (None, s2) \<Rightarrow> (p, s2)
         | (Some e, s2) \<Rightarrow> (p, reject p e s2))"

subsection \<open>The listeners of the four accessors\<close>

text \<open>
  Each function is the body of the arrow function that the accessor passes to
  \<^verbatim>\<open>onReply\<close>; \<open>p\<close> is the promise whose \<^verbatim>\<open>resolve\<close> and \<^verbatim>\<open>reject\<close> it closes over.
  \<open>ack\<close> is the constant \<^verbatim>\<open>RpcTypes.Ack\<close> of model.ts, taken as a parameter.
\<close>

definition ackThenClose_listener ::
  "nat \<Rightarrow> nat \<Rightarrow> message \<Rightarrow> subject \<Rightarrow> err option \<times> subject" where
  "ackThenClose_listener ack p nxt s =
     (let s1 = s\<lparr>onReplyCallback := Buffering\<rparr>;
          s2 = release s1;
          s3 = s2\<lparr>rejected := None\<rparr>
      in if mtype nxt = ack then (None, resolve p Undefined s3)
         else if isError nxt then (None, reject p (getError nxt) s3)
         else (None, reject p (UnexpectedMessageType ExpectedAck (mtype nxt)) s3))"

definition waitNextMessage_listener ::
  "nat \<Rightarrow> message \<Rightarrow> subject \<Rightarrow> err option \<times> subject" where
  "waitNextMessage_listener p nxt s =
     (let s1 = s\<lparr>onReplyCallback := Buffering\<rparr>
      in (None, resolve p (RawMessage nxt) s1))"

definition waitNext_listener ::
  "nat \<Rightarrow> nat \<Rightarrow> schema option \<Rightarrow> message \<Rightarrow> subject \<Rightarrow> err option \<times> subject" where
  "waitNext_listener p ty sch nxt s =
     (let s1 = s\<lparr>onReplyCallback := Buffering\<rparr>
      in if mtype nxt = ty then
           (case sch of
              None \<Rightarrow> (None, resolve p Undefined s1)
            | Some sc \<Rightarrow>
                (case parseBody nxt sc of
                   Inl e \<Rightarrow> (Some e, s1)
                 | Inr b \<Rightarrow> (None, resolve p (Parsed b) s1)))
         else if isError nxt then
           (let s2 = release s1 in (None, reject p (getError nxt) s2))
         else (None, reject p (UnexpectedMessageType (ExpectedType ty) (mtype nxt)) s1))"

definition firstThenClose_listener ::
  "nat \<Rightarrow> nat \<Rightarrow> schema option \<Rightarrow> message \<Rightarrow> subject \<Rightarrow> err option \<times> subject" where
  "firstThenClose_listener p ty sch nxt s =
     (let s1 = s\<lparr>onReplyCallback := Buffering\<rparr>;
          s2 = release s1
      in if mtype nxt = ty then
           (case sch of
              None \<Rightarrow> (None, resolve p (RawMessage nxt) s2)
            | Some sc \<Rightarrow>
                (case parseBody nxt sc of
                   Inl e \<Rightarrow> (None, reject p e s2)
                 | Inr b \<Rightarrow> (None, resolve p (Parsed b) s2)))
         else if isError nxt then
           (let s3 = release s2 in (None, reject p (getError nxt) s3))
         else (None, reject p (UnexpectedMessageType (ExpectedType ty) (mtype nxt)) s2))"

text \<open>
  Invoking a stored listener. The prototype method \<^verbatim>\<open>onReplyCallback\<close> stores the
  message in \<^verbatim>\<open>uncatchedNext\<close>; \<^verbatim>\<open>noop\<close> does nothing.
\<close>

definition call_listener ::
  "nat \<Rightarrow> listener \<Rightarrow> message \<Rightarrow> subject \<Rightarrow> err option \<times> subject" where
  "call_listener ack l nxt s =
     (let s0 = s\<lparr>replyCalls := replyCalls s @ [(l, nxt)]\<rparr>
      in case l of
           Buffering \<Rightarrow> (None, s0\<lparr>uncatchedNext := Some nxt\<rparr>)
         | Noop \<Rightarrow> (None, s0)
         | AckThenCloseListener p \<Rightarrow> ackThenClose_listener ack p nxt s0
         | WaitNextMessageListener p \<Rightarrow> waitNextMessage_listener p nxt s0
         | WaitNextListener p ty sch \<Rightarrow> waitNext_listener p ty sch nxt s0
         | FirstThenCloseListener p ty sch \<Rightarrow> firstThenClose_listener p ty sch nxt s0
         | CustomListener c \<Rightarrow> (None, s0))"

definition call_rejected :: "rejection \<Rightarrow> err \<Rightarrow> subject \<Rightarrow> subject" where
  "call_rejected r e s =
     (let s0 = s\<lparr>rejectCalls := rejectCalls s @ [(r, e)]\<rparr>
      in case r of
           RejectPromise p \<Rightarrow> reject p e s0
         | CustomRejected c \<Rightarrow> s0)"

subsection \<open>The methods\<close>

text \<open>The error that \<^verbatim>\<open>disconnect\<close> passes on: \<^verbatim>\<open>error || new RpcError('Connection closed')\<close>.\<close>

definition disconnect_error :: "err option \<Rightarrow> err" where
  "disconnect_error error = (case error of Some e \<Rightarrow> e | None \<Rightarrow> RpcError ''Connection closed'')"

definition disconnect :: "err option \<Rightarrow> subject \<Rightarrow> subject" where
  "disconnect error s =
     (let s1 = (case rejected s of
                  Some r \<Rightarrow>
                    (call_rejected r (disconnect_error error) s)\<lparr>rejected := None\<rparr>
                | None \<Rightarrow> s);
          s2 = s1\<lparr>onReplyCallback := Noop\<rparr>
      in release s2)"

definition next_msg :: "nat \<Rightarrow> message \<Rightarrow> subject \<Rightarrow> err option \<times> subject" where
  "next_msg ack nxt s = call_listener ack (onReplyCallback s) nxt s"

definition onRejected :: "rejection \<Rightarrow> subject \<Rightarrow> subject" where
  "onRejected callback s = s\<lparr>rejected := Some callback\<rparr>"

definition onReply :: "nat \<Rightarrow> listener \<Rightarrow> subject \<Rightarrow> err option \<times> subject" where
  "onReply ack callback s =
     (let s1 = s\<lparr>onReplyCallback := callback\<rparr>
      in case uncatchedNext s1 of
           None \<Rightarrow> (None, s1)
         | Some m \<Rightarrow>
             (case call_listener ack callback m s1 of
                (Some e, s2) \<Rightarrow> (Some e, s2)
              | (None, s2) \<Rightarrow> (None, s2\<lparr>uncatchedNext := None\<rparr>)))"

definition ackThenClose :: "nat \<Rightarrow> subject \<Rightarrow> nat \<times> subject" where
  "ackThenClose ack s =
     asyncOperation
       (\<lambda>p s. onReply ack (AckThenCloseListener p) (s\<lparr>rejected := Some (RejectPromise p)\<rparr>)) s"

definition waitNextMessage :: "nat \<Rightarrow> subject \<Rightarrow> nat \<times> subject" where
  "waitNextMessage ack s =
     asyncOperation
       (\<lambda>p s. onReply ack (WaitNextMessageListener p) (s\<lparr>rejected := Some (RejectPromise p)\<rparr>)) s"

definition waitNext :: "nat \<Rightarrow> nat \<Rightarrow> schema option \<Rightarrow> subject \<Rightarrow> nat \<times> subject" where
  "waitNext ack ty sch s =
     asyncOperation
       (\<lambda>p s. onReply ack (WaitNextListener p ty sch) (s\<lparr>rejected := Some (RejectPromise p)\<rparr>)) s"

definition firstThenClose :: "nat \<Rightarrow> nat \<Rightarrow> schema option \<Rightarrow> subject \<Rightarrow> nat \<times> subject" where
  "firstThenClose ack ty sch s =
     asyncOperation
       (\<lambda>p s. onReply ack (FirstThenCloseListener p ty sch) (s\<lparr>rejected := Some (RejectPromise p)\<rparr>)) s"

text \<open>Delivering a list of replies in order, stopping at the first escaping exception.\<close>

fun deliver_all :: "nat \<Rightarrow> message list \<Rightarrow> subject \<Rightarrow> err option \<times> subject" where
  "deliver_all ack [] s = (None, s)"
| "deliver_all ack (m # ms) s =
     (case next_msg ack m s of
        (Some e, s1) \<Rightarrow> (Some e, s1)
      | (None, s1) \<Rightarrow> deliver_all ack ms s1)"

subsection \<open>Sample replies\<close>

definition plain_reply :: "nat \<Rightarrow> message" where
  "plain_reply t = \<lparr> mtype = t, isError = False, getError = ExternalError 0,
     parseBody = (\<lambda>sc. Inr 11) \<rparr>"

definition error_reply :: "nat \<Rightarrow> message" where
  "error_reply t = \<lparr> mtype = t, isError = True, getError = ExternalError 7,
     parseBody = (\<lambda>sc. Inr 11) \<rparr>"

definition unparsable_reply :: "nat \<Rightarrow> message" where
  "unparsable_reply t = \<lparr> mtype = t, isError = False, getError = ExternalError 0,
     parseBody = (\<lambda>sc. Inl (ExternalError 9)) \<rparr>"

definition unparsable_error_reply :: "nat \<Rightarrow> message" where
  "unparsable_error_reply t = \<lparr> mtype = t, isError = True, getError = ExternalError 7,
     parseBody = (\<lambda>sc. Inl (ExternalError 9)) \<rparr>"


section \<open>Basic facts\<close>

lemmas listener_defs = ackThenClose_listener_def waitNextMessage_listener_def
  waitNext_listener_def firstThenClose_listener_def call_listener_def
lemmas promise_defs = settle_def resolve_def reject_def promise_def
lemma ackThenClose_awaits:
  "uncatchedNext s = None \<Longrightarrow>
   ackThenClose ack s = (length (promises s),
     s\<lparr>promises := promises s @ [None],
       rejected := Some (RejectPromise (length (promises s))),
       onReplyCallback := AckThenCloseListener (length (promises s))\<rparr>)"
  by (simp add: ackThenClose_def asyncOperation_def onReply_def Let_def)

lemma waitNextMessage_awaits:
  "uncatchedNext s = None \<Longrightarrow>
   waitNextMessage ack s = (length (promises s),
     s\<lparr>promises := promises s @ [None],
       rejected := Some (RejectPromise (length (promises s))),
       onReplyCallback := WaitNextMessageListener (length (promises s))\<rparr>)"
  by (simp add: waitNextMessage_def asyncOperation_def onReply_def Let_def)

lemma waitNext_awaits:
  "uncatchedNext s = None \<Longrightarrow>
   waitNext ack ty sch s = (length (promises s),
     s\<lparr>promises := promises s @ [None],
       rejected := Some (RejectPromise (length (promises s))),
       onReplyCallback := WaitNextListener (length (promises s)) ty sch\<rparr>)"
  by (simp add: waitNext_def asyncOperation_def onReply_def Let_def)

lemma firstThenClose_awaits:
  "uncatchedNext s = None \<Longrightarrow>
   firstThenClose ack ty sch s = (length (promises s),
     s\<lparr>promises := promises s @ [None],
       rejected := Some (RejectPromise (length (promises s))),
       onReplyCallback := FirstThenCloseListener (length (promises s)) ty sch\<rparr>)"
  by (simp add: firstThenClose_def asyncOperation_def onReply_def Let_def)

lemma deliver_all_Noop:
  "onReplyCallback s = Noop \<Longrightarrow>
   deliver_all ack ms s = (None, s\<lparr>replyCalls := replyCalls s @ map (Pair Noop) ms\<rparr>)"
  by (induction ms arbitrary: s) (simp_all add: next_msg_def call_listener_def)



lemma disconnect_fields:
  "rejected (disconnect error s) = None"
  "onReplyCallback (disconnect error s) = Noop"
  "released (disconnect error s) = released s + 1"
  "uncatchedNext (disconnect error s) = uncatchedNext s"
  by (simp_all add: disconnect_def call_rejected_def release_def promise_defs Let_def
      split: option.split rejection.split)

lemma disconnect_rejectCalls:
  "rejectCalls (disconnect error s) = rejectCalls s @
     (case rejected s of None \<Rightarrow> []
      | Some r \<Rightarrow> [(r, disconnect_error error)])"
  by (simp add: disconnect_def call_rejected_def release_def promise_defs Let_def
      split: option.split rejection.split)

text \<open>
  An accessor that awaits, followed by one delivered reply: the escaping exception, the
  promise of the accessor, and the fields of the subject afterwards.
\<close>

lemma ackThenClose_then_next:
  fixes ack :: nat and m :: message and s :: subject
  assumes "uncatchedNext s = None"
  defines "r \<equiv> next_msg ack m (snd (ackThenClose ack s))"
  shows "fst r = None"
    and "promise (snd r) (length (promises s)) =
           Some (if mtype m = ack then Resolved Undefined
                 else if isError m then Rejected (getError m)
                 else Rejected (UnexpectedMessageType ExpectedAck (mtype m)))"
    and "released (snd r) = released s + 1"
    and "rejected (snd r) = None"
    and "onReplyCallback (snd r) = Buffering"
    and "uncatchedNext (snd r) = None"
    and "rejectCalls (snd r) = rejectCalls s"
  using assms(1) unfolding r_def
  by (simp_all add: ackThenClose_awaits next_msg_def listener_defs promise_defs release_def
      Let_def nth_append)

lemma waitNextMessage_then_next:
  fixes ack :: nat and m :: message and s :: subject
  assumes "uncatchedNext s = None"
  defines "r \<equiv> next_msg ack m (snd (waitNextMessage ack s))"
  shows "fst r = None"
    and "promise (snd r) (length (promises s)) = Some (Resolved (RawMessage m))"
    and "released (snd r) = released s"
    and "rejected (snd r) = Some (RejectPromise (length (promises s)))"
    and "onReplyCallback (snd r) = Buffering"
    and "uncatchedNext (snd r) = None"
    and "rejectCalls (snd r) = rejectCalls s"
  using assms(1) unfolding r_def
  by (simp_all add: waitNextMessage_awaits next_msg_def listener_defs promise_defs release_def
      Let_def nth_append)

lemma waitNext_then_next:
  fixes ack :: nat and m :: message and s :: subject and ty :: nat and sch :: "schema option"
  assumes "uncatchedNext s = None"
  defines "r \<equiv> next_msg ack m (snd (waitNext ack ty sch s))"
  shows "fst r =
           (if mtype m = ty
            then (case sch of None \<Rightarrow> None
                  | Some sc \<Rightarrow> (case parseBody m sc of Inl e \<Rightarrow> Some e | Inr b \<Rightarrow> None))
            else None)"
    and "promise (snd r) (length (promises s)) =
           (if mtype m = ty
            then (case sch of None \<Rightarrow> Some (Resolved Undefined)
                  | Some sc \<Rightarrow>
                      (case parseBody m sc of Inl e \<Rightarrow> None
                       | Inr b \<Rightarrow> Some (Resolved (Parsed b))))
            else if isError m then Some (Rejected (getError m))
            else Some (Rejected (UnexpectedMessageType (ExpectedType ty) (mtype m))))"
    and "released (snd r) = (if mtype m \<noteq> ty \<and> isError m then released s + 1 else released s)"
    and "rejected (snd r) = Some (RejectPromise (length (promises s)))"
    and "onReplyCallback (snd r) = Buffering"
    and "uncatchedNext (snd r) = None"
    and "rejectCalls (snd r) = rejectCalls s"
  using assms(1) unfolding r_def
  by (simp_all add: waitNext_awaits next_msg_def listener_defs promise_defs release_def
      Let_def nth_append split: option.split sum.split)

lemma firstThenClose_then_next:
  fixes ack :: nat and m :: message and s :: subject and ty :: nat and sch :: "schema option"
  assumes "uncatchedNext s = None"
  defines "r \<equiv> next_msg ack m (snd (firstThenClose ack ty sch s))"
  shows "fst r = None"
    and "promise (snd r) (length (promises s)) =
           (if mtype m = ty
            then (case sch of None \<Rightarrow> Some (Resolved (RawMessage m))
                  | Some sc \<Rightarrow>
                      (case parseBody m sc of Inl e \<Rightarrow> Some (Rejected e)
                       | Inr b \<Rightarrow> Some (Resolved (Parsed b))))
            else if isError m then Some (Rejected (getError m))
            else Some (Rejected (UnexpectedMessageType (ExpectedType ty) (mtype m))))"
    and "released (snd r) = (if mtype m \<noteq> ty \<and> isError m then released s + 2 else released s + 1)"
    and "rejected (snd r) = Some (RejectPromise (length (promises s)))"
    and "onReplyCallback (snd r) = Buffering"
    and "uncatchedNext (snd r) = None"
    and "rejectCalls (snd r) = rejectCalls s"
  using assms(1) unfolding r_def
  by (simp_all add: firstThenClose_awaits next_msg_def listener_defs promise_defs release_def
      Let_def nth_append split: option.split sum.split)

lemma accessor_fst:
  "fst (ackThenClose ack s) = length (promises s)"
  "fst (waitNextMessage ack s) = length (promises s)"
  "fst (waitNext ack ty sch s) = length (promises s)"
  "fst (firstThenClose ack ty sch s) = length (promises s)"
  by (simp_all add: ackThenClose_def waitNextMessage_def waitNext_def firstThenClose_def
      asyncOperation_def Let_def split: prod.split option.split)

text \<open>
The components of the sample replies.
\<close>

lemma sample_fields:
  "mtype (plain_reply t) = t" "isError (plain_reply t) = False"
  "parseBody (plain_reply t) sc = Inr 11"
  "mtype (error_reply t) = t" "isError (error_reply t) = True"
  "getError (error_reply t) = ExternalError 7" "parseBody (error_reply t) sc = Inr 11"
  "mtype (unparsable_reply t) = t" "isError (unparsable_reply t) = False"
  "parseBody (unparsable_reply t) sc = Inl (ExternalError 9)"
  "mtype (unparsable_error_reply t) = t" "isError (unparsable_error_reply t) = True"
  "getError (unparsable_error_reply t) = ExternalError 7"
  "parseBody (unparsable_error_reply t) sc = Inl (ExternalError 9)"
  by (simp_all add: plain_reply_def error_reply_def unparsable_reply_def
      unparsable_error_reply_def)

text \<open>
All the methods, for evaluating a scenario step by step.
\<close>

lemmas method_defs = disconnect_def disconnect_error_def call_rejected_def next_msg_def
  onReply_def asyncOperation_def ackThenClose_def waitNextMessage_def waitNext_def
  firstThenClose_def release_def new_subject_def Let_def

text \<open>
  Every invocation of a listener is recorded. The only listener that throws is that of
  \<^verbatim>\<open>waitNext\<close>, when \<^verbatim>\<open>parseBody\<close> throws; it has then touched \<^verbatim>\<open>onReplyCallback\<close> but not
  \<^verbatim>\<open>uncatchedNext\<close>.
\<close>

lemma call_listener_replyCalls:
  "replyCalls (snd (call_listener ack f m s)) = replyCalls s @ [(f, m)]"
  by (cases f)
    (simp_all add: listener_defs promise_defs release_def Let_def split: option.split sum.split)

lemma call_listener_throws:
  "fst (call_listener ack f m s) \<noteq> None \<Longrightarrow>
   uncatchedNext (snd (call_listener ack f m s)) = uncatchedNext s"
  by (cases f)
    (simp_all add: listener_defs promise_defs release_def Let_def split: option.splits sum.splits if_splits)

text \<open>
  \<^verbatim>\<open>waitNext\<close> called while a reply is buffered: its listener runs inside the executor, so an
  exception of \<^verbatim>\<open>parseBody\<close> rejects the promise, and the buffered reply is then not cleared.
\<close>

lemma waitNext_replays:
  assumes "uncatchedNext s = Some m"
  shows "promise (snd (waitNext ack ty sch s)) (length (promises s)) =
           (if mtype m = ty
            then (case sch of None \<Rightarrow> Some (Resolved Undefined)
                  | Some sc \<Rightarrow>
                      (case parseBody m sc of Inl e \<Rightarrow> Some (Rejected e)
                       | Inr b \<Rightarrow> Some (Resolved (Parsed b))))
            else if isError m then Some (Rejected (getError m))
            else Some (Rejected (UnexpectedMessageType (ExpectedType ty) (mtype m))))"
    and "uncatchedNext (snd (waitNext ack ty sch s)) =
           (case sch of None \<Rightarrow> None
            | Some sc \<Rightarrow>
                (case parseBody m sc of Inl e \<Rightarrow> if mtype m = ty then Some m else None
                 | Inr b \<Rightarrow> None))"
  using assms
  by (simp_all add: waitNext_def asyncOperation_def onReply_def listener_defs promise_defs
      release_def Let_def nth_append split: option.split sum.split)

text \<open>
  A reply delivered while the buffering listener is installed is stored; the next
  \<^verbatim>\<open>onReply(f)\<close> invokes \<open>f\<close> once with it and clears the buffer when \<open>f\<close> has returned. With
  nothing buffered, \<^verbatim>\<open>onReply(f)\<close> installs \<open>f\<close> and invokes nothing. Every listener but that of
  \<^verbatim>\<open>waitNext\<close> with a schema returns normally.
\<close>

lemma call_listener_returns:
  assumes "\<forall>p ty sc. f \<noteq> WaitNextListener p ty (Some sc)"
  shows "fst (call_listener ack f m s) = None"
proof (cases f)
  case (WaitNextListener p ty sch)
  with assms have "sch = None"
    by (cases sch) simp_all
  with WaitNextListener show ?thesis
    by (simp add: listener_defs Let_def)
qed (simp_all add: listener_defs Let_def split: option.split sum.split)

lemma onReply_replays_buffered:
  "(onReplyCallback s = Buffering \<longrightarrow>
      (let b = next_msg ack m s; r = onReply ack f (snd b)
       in fst b = None
          \<and> uncatchedNext (snd b) = Some m
          \<and> replyCalls (snd r) = replyCalls (snd b) @ [(f, m)]
          \<and> uncatchedNext (snd r) = (if fst r = None then None else Some m)))
   \<and> (uncatchedNext s = None \<longrightarrow> onReply ack f s = (None, s\<lparr>onReplyCallback := f\<rparr>))"
proof -
  have replay: "fst b = None
          \<and> uncatchedNext (snd b) = Some m
          \<and> replyCalls (snd r) = replyCalls (snd b) @ [(f, m)]
          \<and> uncatchedNext (snd r) = (if fst r = None then None else Some m)"
    if buf: "onReplyCallback s = Buffering" and b: "b = next_msg ack m s"
      and r: "r = onReply ack f (snd b)" for b r
  proof -
    define s1 where "s1 = (snd b)\<lparr>onReplyCallback := f\<rparr>"
    have b1: "fst b = None" and b2: "uncatchedNext (snd b) = Some m"
      using buf unfolding b by (simp_all add: next_msg_def call_listener_def)
    have u1: "uncatchedNext s1 = Some m" and c1: "replyCalls s1 = replyCalls (snd b)"
      using b2 by (simp_all add: s1_def)
    have r': "r = (case call_listener ack f m s1 of
                     (Some e, s2) \<Rightarrow> (Some e, s2)
                   | (None, s2) \<Rightarrow> (None, s2\<lparr>uncatchedNext := None\<rparr>))"
      using b2 unfolding r s1_def by (simp add: onReply_def Let_def)
    show ?thesis
    proof (cases "fst (call_listener ack f m s1)")
      case None
      then have "r = (None, (snd (call_listener ack f m s1))\<lparr>uncatchedNext := None\<rparr>)"
        unfolding r' by (simp add: split_beta)
      then show ?thesis
        using b1 b2 c1 call_listener_replyCalls [of ack f m s1] by simp
    next
      case (Some e)
      then have "r = (Some e, snd (call_listener ack f m s1))"
        unfolding r' by (simp add: split_beta)
      moreover have "uncatchedNext (snd (call_listener ack f m s1)) = Some m"
        using call_listener_throws [of ack f m s1] Some u1 by simp
      ultimately show ?thesis
        using b1 b2 c1 call_listener_replyCalls [of ack f m s1] by simp
    qed
  qed
  have install: "onReply ack f s = (None, s\<lparr>onReplyCallback := f\<rparr>)" if "uncatchedNext s = None"
    using that by (simp add: onReply_def Let_def)
  show ?thesis
    unfolding Let_def using replay install by blast
qed

section \<open>The claims\<close>

subsection \<open>C1: how often release is invoked\<close>

text \<open>
  Claim C1, as amended. \<^verbatim>\<open>release\<close> is invoked exactly once on each of these paths, starting
  with no buffered reply: an accessor followed by \<^verbatim>\<open>disconnect\<close> before any reply; \<^verbatim>\<open>ackThenClose\<close>
  followed by any delivered reply; \<^verbatim>\<open>firstThenClose\<close> followed by a reply that is of the
  expected type or is not error-tagged; \<^verbatim>\<open>waitNext\<close> followed by an error-tagged reply of
  another type. It is not invoked when \<^verbatim>\<open>waitNextMessage\<close> resolves, nor when \<^verbatim>\<open>waitNext\<close>
  handles a reply that is of the expected type or is not error-tagged. Every call of
  \<^verbatim>\<open>disconnect\<close> invokes it once more, whatever happened before.
\<close>

theorem release_per_path:
  assumes "uncatchedNext s = None"
  shows "released (disconnect error (snd (ackThenClose ack s))) = released s + 1
       \<and> released (disconnect error (snd (waitNextMessage ack s))) = released s + 1
       \<and> released (disconnect error (snd (waitNext ack ty sch s))) = released s + 1
       \<and> released (disconnect error (snd (firstThenClose ack ty sch s))) = released s + 1
       \<and> released (snd (next_msg ack m (snd (ackThenClose ack s)))) = released s + 1
       \<and> (mtype m = ty \<or> \<not> isError m \<longrightarrow>
            released (snd (next_msg ack m (snd (firstThenClose ack ty sch s)))) = released s + 1)
       \<and> released (snd (next_msg ack m (snd (waitNext ack ty sch s)))) =
            (if mtype m \<noteq> ty \<and> isError m then released s + 1 else released s)
       \<and> released (snd (next_msg ack m (snd (waitNextMessage ack s)))) = released s
       \<and> released (disconnect error' s') = released s' + 1"
proof -
  have by_disconnect:
    "released (disconnect error (snd (ackThenClose ack s))) = released s + 1"
    "released (disconnect error (snd (waitNextMessage ack s))) = released s + 1"
    "released (disconnect error (snd (waitNext ack ty sch s))) = released s + 1"
    "released (disconnect error (snd (firstThenClose ack ty sch s))) = released s + 1"
    using assms
    by (simp_all add: disconnect_fields ackThenClose_awaits waitNextMessage_awaits
        waitNext_awaits firstThenClose_awaits)
  have by_reply:
    "released (snd (next_msg ack m (snd (ackThenClose ack s)))) = released s + 1"
    "mtype m = ty \<or> \<not> isError m \<longrightarrow>
       released (snd (next_msg ack m (snd (firstThenClose ack ty sch s)))) = released s + 1"
    "released (snd (next_msg ack m (snd (waitNext ack ty sch s)))) =
       (if mtype m \<noteq> ty \<and> isError m then released s + 1 else released s)"
    "released (snd (next_msg ack m (snd (waitNextMessage ack s)))) = released s"
    using assms
    by (simp_all add: ackThenClose_then_next waitNextMessage_then_next waitNext_then_next
        firstThenClose_then_next)
  have every_disconnect: "released (disconnect error' s') = released s' + 1"
    by (rule disconnect_fields)
  show ?thesis
    using by_disconnect by_reply every_disconnect by blast
qed

text \<open>
On a new subject, with a reply of type 5 that is not error-tagged.
\<close>

theorem release_per_path_witness:
  "uncatchedNext new_subject = None
   \<and> (mtype (plain_reply 5) = 5 \<or> \<not> isError (plain_reply 5))
   \<and> released (disconnect None (snd (ackThenClose 0 new_subject))) = 1
   \<and> released (disconnect None (snd (waitNextMessage 0 new_subject))) = 1
   \<and> released (disconnect None (snd (waitNext 0 5 None new_subject))) = 1
   \<and> released (disconnect None (snd (firstThenClose 0 5 None new_subject))) = 1
   \<and> released (snd (next_msg 0 (plain_reply 5) (snd (ackThenClose 0 new_subject)))) = 1
   \<and> released (snd (next_msg 0 (plain_reply 5) (snd (firstThenClose 0 5 None new_subject)))) = 1
   \<and> released (snd (next_msg 0 (plain_reply 5) (snd (waitNext 0 5 None new_subject)))) = 0
   \<and> released (snd (next_msg 0 (plain_reply 5) (snd (waitNextMessage 0 new_subject)))) = 0
   \<and> released (disconnect None (disconnect None new_subject)) = 2"
  using release_per_path
    [where s = new_subject and ack = 0 and ty = 5 and sch = None and m = "plain_reply 5"
       and error = None and error' = None and s' = "disconnect None new_subject"]
    release_per_path
    [where s = new_subject and ack = 0 and ty = 5 and sch = None and m = "plain_reply 5"
       and error = None and error' = None and s' = new_subject]
  by (simp add: sample_fields new_subject_def)

text \<open>
  Claim C1 as stated asks for exactly one invocation over the lifetime. After
  \<^verbatim>\<open>ackThenClose()\<close>, an Ack reply and then \<^verbatim>\<open>disconnect()\<close> the count is two; after two calls of
  \<^verbatim>\<open>disconnect()\<close> it is two; after \<^verbatim>\<open>waitNextMessage()\<close> has resolved it is zero.
\<close>

theorem exactly_once_release_counterexample:
  "released (disconnect None
     (snd (next_msg 0 (plain_reply 0) (snd (ackThenClose 0 new_subject))))) = 2
   \<and> released (disconnect None (disconnect None new_subject)) = 2
   \<and> released (snd (next_msg 0 (plain_reply 5) (snd (waitNextMessage 0 new_subject)))) = 0"
  by (simp add: method_defs listener_defs promise_defs sample_fields)

subsection \<open>C2: buffer, then replay\<close>

text \<open>
  Claim C2, evaluated. A reply of type 5 whose body does not parse is delivered to a new
  subject and buffered; then \<^verbatim>\<open>waitNext(5, schema)\<close> installs its listener through
  \<^verbatim>\<open>onReply\<close>. The listener is invoked with the buffered reply, \<^verbatim>\<open>parseBody\<close> throws, the
  exception leaves \<^verbatim>\<open>onReply\<close> before the buffer is cleared, and the reply is still
  buffered afterwards, where the claim has the buffer empty.
\<close>

theorem buffered_reply_kept_when_listener_throws:
  "uncatchedNext (snd (next_msg 0 (unparsable_reply 5) new_subject)) = Some (unparsable_reply 5)
   \<and> fst (onReply 0 (WaitNextListener 0 5 (Some 3))
           (snd (next_msg 0 (unparsable_reply 5) new_subject))) = Some (ExternalError 9)
   \<and> uncatchedNext (snd (onReply 0 (WaitNextListener 0 5 (Some 3))
           (snd (next_msg 0 (unparsable_reply 5) new_subject)))) = Some (unparsable_reply 5)
   \<and> uncatchedNext (snd (waitNext 0 5 (Some 3)
           (snd (next_msg 0 (unparsable_reply 5) new_subject)))) = Some (unparsable_reply 5)"
  by (simp add: method_defs listener_defs promise_defs sample_fields)

subsection \<open>C3: disconnect\<close>

text \<open>
  Claim C3, as amended. \<^verbatim>\<open>disconnect(error?)\<close>: a rejection callback that is installed is
  invoked once, with the error given or else with \<open>RpcError ''Connection closed''\<close> (for
  the \<^verbatim>\<open>reject\<close> of an accessor's promise that is a rejection of the promise), and
  \<^verbatim>\<open>rejected\<close> is cleared; the listener becomes \<^verbatim>\<open>noop\<close>; \<^verbatim>\<open>release\<close> is invoked once. While
  \<^verbatim>\<open>noop\<close> is the listener, any number of delivered replies returns normally and changes
  nothing of the subject: the only trace is the record of the calls of \<^verbatim>\<open>noop\<close>. The
  listener does not stay for ever: a later \<^verbatim>\<open>onReply(f)\<close> puts \<open>f\<close> in its place.
\<close>

theorem disconnect_behaviour:
  "rejectCalls (disconnect error s) =
     rejectCalls s @ (case rejected s of None \<Rightarrow> [] | Some r \<Rightarrow> [(r, disconnect_error error)])
   \<and> disconnect_error None = RpcError ''Connection closed''
   \<and> disconnect_error (Some e) = e
   \<and> promises (disconnect error s) =
       (case rejected s of
          Some (RejectPromise p) \<Rightarrow> promises (reject p (disconnect_error error) s)
        | _ \<Rightarrow> promises s)
   \<and> rejected (disconnect error s) = None
   \<and> onReplyCallback (disconnect error s) = Noop
   \<and> released (disconnect error s) = released s + 1
   \<and> deliver_all ack ms (disconnect error s) =
       (None, (disconnect error s)
                \<lparr>replyCalls := replyCalls (disconnect error s) @ map (Pair Noop) ms\<rparr>)
   \<and> (uncatchedNext s = None \<longrightarrow>
        onReply ack f (disconnect error s) =
          (None, (disconnect error s)\<lparr>onReplyCallback := f\<rparr>))"
proof -
  have calls: "rejectCalls (disconnect error s) =
     rejectCalls s @ (case rejected s of None \<Rightarrow> [] | Some r \<Rightarrow> [(r, disconnect_error error)])"
    by (rule disconnect_rejectCalls)
  have proms: "promises (disconnect error s) =
       (case rejected s of
          Some (RejectPromise p) \<Rightarrow> promises (reject p (disconnect_error error) s)
        | _ \<Rightarrow> promises s)"
    by (simp add: disconnect_def call_rejected_def release_def promise_defs Let_def
        split: option.split rejection.split)
  have later: "deliver_all ack ms (disconnect error s) =
       (None, (disconnect error s)
                \<lparr>replyCalls := replyCalls (disconnect error s) @ map (Pair Noop) ms\<rparr>)"
    by (rule deliver_all_Noop) (rule disconnect_fields)
  have replaced: "onReply ack f (disconnect error s) =
          (None, (disconnect error s)\<lparr>onReplyCallback := f\<rparr>)"
    if "uncatchedNext s = None"
    using that by (simp add: onReply_def Let_def disconnect_fields)
  show ?thesis
    using calls proms later replaced by (simp add: disconnect_fields disconnect_error_def)
qed

text \<open>
  On a new subject: \<^verbatim>\<open>disconnect()\<close>, then a delivered reply, which is discarded; and
  \<^verbatim>\<open>disconnect()\<close>, then \<^verbatim>\<open>onReply\<close> with a callback of the caller, which replaces \<^verbatim>\<open>noop\<close>.
\<close>

theorem disconnect_behaviour_witness:
  "uncatchedNext new_subject = None
   \<and> deliver_all 0 [plain_reply 3] (disconnect None new_subject) =
       (None, \<lparr> uncatchedNext = None, onReplyCallback = Noop, rejected = None,
          released = 1, promises = [], replyCalls = [(Noop, plain_reply 3)],
          rejectCalls = [] \<rparr>)
   \<and> onReply 0 (CustomListener 1) (disconnect None new_subject) =
       (None, \<lparr> uncatchedNext = None, onReplyCallback = CustomListener 1, rejected = None,
          released = 1, promises = [], replyCalls = [], rejectCalls = [] \<rparr>)"
  using disconnect_behaviour
    [where s = new_subject and error = None and ack = 0 and ms = "[plain_reply 3]"
       and f = "CustomListener 1"]
  by (simp add: method_defs)

text \<open>
  Claim C3 as stated makes \<^verbatim>\<open>noop\<close> permanent, so that no later delivery can change the
  subject. After \<^verbatim>\<open>disconnect()\<close> on a new subject, \<^verbatim>\<open>waitNextMessage()\<close> installs its listener
  in place of \<^verbatim>\<open>noop\<close>; the reply delivered next resolves the promise, which was pending,
  and leaves the buffering listener installed.
\<close>

theorem disconnect_noop_counterexample:
  "onReplyCallback (disconnect None new_subject) = Noop
   \<and> onReplyCallback (snd (waitNextMessage 0 (disconnect None new_subject))) =
       WaitNextMessageListener 0
   \<and> promise (snd (waitNextMessage 0 (disconnect None new_subject))) 0 = None
   \<and> promise (snd (next_msg 0 (plain_reply 3)
         (snd (waitNextMessage 0 (disconnect None new_subject))))) 0 =
       Some (Resolved (RawMessage (plain_reply 3)))
   \<and> onReplyCallback (snd (next_msg 0 (plain_reply 3)
         (snd (waitNextMessage 0 (disconnect None new_subject))))) = Buffering"
  by (simp add: method_defs listener_defs promise_defs sample_fields)

subsection \<open>C4: a reply of another type that is not an error\<close>

text \<open>
  Claim C4, as amended. While \<^verbatim>\<open>waitNext(ty)\<close> or \<^verbatim>\<open>firstThenClose(ty)\<close> awaits, a reply that is
  neither of type \<open>ty\<close> nor error-tagged rejects the promise with the unexpected-type error.
  \<^verbatim>\<open>waitNext\<close> does not release on this path; \<^verbatim>\<open>firstThenClose\<close> does, once, since its listener
  releases before it looks at the reply. An error-tagged reply of another type makes
  \<^verbatim>\<open>waitNext\<close> release.
\<close>

theorem type_mismatch_outcomes:
  assumes "uncatchedNext s = None" and "mtype m \<noteq> ty" and "\<not> isError m"
  shows "(let p = fst (waitNext ack ty sch s); r = next_msg ack m (snd (waitNext ack ty sch s))
          in fst r = None
             \<and> promise (snd r) p =
                 Some (Rejected (UnexpectedMessageType (ExpectedType ty) (mtype m)))
             \<and> released (snd r) = released s)
       \<and> (let p = fst (firstThenClose ack ty sch s);
              r = next_msg ack m (snd (firstThenClose ack ty sch s))
          in fst r = None
             \<and> promise (snd r) p =
                 Some (Rejected (UnexpectedMessageType (ExpectedType ty) (mtype m)))
             \<and> released (snd r) = released s + 1)
       \<and> (isError m' \<and> mtype m' \<noteq> ty \<longrightarrow>
            released (snd (next_msg ack m' (snd (waitNext ack ty sch s)))) = released s + 1)"
  using assms
  by (simp add: Let_def accessor_fst waitNext_then_next firstThenClose_then_next)

text \<open>
On a new subject: type 42 expected, type 99 received; and an error reply of type 1.
\<close>

theorem type_mismatch_outcomes_witness:
  "uncatchedNext new_subject = None \<and> mtype (plain_reply 99) \<noteq> 42 \<and> \<not> isError (plain_reply 99)
   \<and> isError (error_reply 1) \<and> mtype (error_reply 1) \<noteq> 42
   \<and> promise (snd (next_msg 0 (plain_reply 99) (snd (waitNext 0 42 None new_subject)))) 0 =
       Some (Rejected (UnexpectedMessageType (ExpectedType 42) 99))
   \<and> released (snd (next_msg 0 (plain_reply 99) (snd (waitNext 0 42 None new_subject)))) = 0
   \<and> promise (snd (next_msg 0 (plain_reply 99) (snd (firstThenClose 0 42 None new_subject)))) 0 =
       Some (Rejected (UnexpectedMessageType (ExpectedType 42) 99))
   \<and> released (snd (next_msg 0 (plain_reply 99) (snd (firstThenClose 0 42 None new_subject)))) = 1
   \<and> released (snd (next_msg 0 (error_reply 1) (snd (waitNext 0 42 None new_subject)))) = 1"
  using type_mismatch_outcomes
    [where s = new_subject and m = "plain_reply 99" and ty = 42 and m' = "error_reply 1"
       and ack = 0 and sch = None]
  by (simp add: Let_def accessor_fst sample_fields new_subject_def)

text \<open>
  Claim C4 as stated leaves the subject unreleased for \<^verbatim>\<open>firstThenClose\<close> too. After
  \<^verbatim>\<open>firstThenClose(7)\<close> and a plain reply of type 99, \<^verbatim>\<open>release\<close> has been invoked once.
\<close>

theorem type_mismatch_counterexample:
  "promise (snd (next_msg 0 (plain_reply 99) (snd (firstThenClose 0 7 None new_subject)))) 0 =
     Some (Rejected (UnexpectedMessageType (ExpectedType 7) 99))
   \<and> released (snd (next_msg 0 (plain_reply 99) (snd (firstThenClose 0 7 None new_subject)))) = 1"
  by (simp add: method_defs listener_defs promise_defs sample_fields)

subsection \<open>C5: waitNext resolves on the expected type only\<close>

text \<open>
  Claim C5. The promise of \<^verbatim>\<open>waitNext(ty)\<close> is resolved only by a reply of type \<open>ty\<close>; a reply
  of another type that is not error-tagged rejects it with the unexpected-type error
  naming \<open>ty\<close> and the type received. This holds when the reply is delivered while the
  accessor awaits, and when it was buffered before the accessor was called.
\<close>

theorem waitNext_type_matching:
  "(uncatchedNext s = None \<longrightarrow>
      (let p = fst (waitNext ack ty sch s); r = next_msg ack m (snd (waitNext ack ty sch s))
       in ((\<exists>v. promise (snd r) p = Some (Resolved v)) \<longrightarrow> mtype m = ty)
          \<and> (mtype m \<noteq> ty \<and> \<not> isError m \<longrightarrow>
               fst r = None
               \<and> promise (snd r) p =
                   Some (Rejected (UnexpectedMessageType (ExpectedType ty) (mtype m))))))
   \<and> (uncatchedNext s = Some m \<longrightarrow>
      (let p = fst (waitNext ack ty sch s); s1 = snd (waitNext ack ty sch s)
       in ((\<exists>v. promise s1 p = Some (Resolved v)) \<longrightarrow> mtype m = ty)
          \<and> (mtype m \<noteq> ty \<and> \<not> isError m \<longrightarrow>
               promise s1 p =
                 Some (Rejected (UnexpectedMessageType (ExpectedType ty) (mtype m))))))"
  by (simp add: Let_def accessor_fst waitNext_then_next waitNext_replays
      split: option.split sum.split)

text \<open>
  On a new subject: type 42 expected; a reply of type 42 resolves, a reply of type 99
  rejects, delivered after the call or before it.
\<close>

theorem waitNext_type_matching_witness:
  "uncatchedNext new_subject = None
   \<and> promise (snd (next_msg 0 (plain_reply 42) (snd (waitNext 0 42 None new_subject)))) 0 =
       Some (Resolved Undefined)
   \<and> mtype (plain_reply 42) = 42
   \<and> mtype (plain_reply 99) \<noteq> 42 \<and> \<not> isError (plain_reply 99)
   \<and> promise (snd (next_msg 0 (plain_reply 99) (snd (waitNext 0 42 None new_subject)))) 0 =
       Some (Rejected (UnexpectedMessageType (ExpectedType 42) 99))
   \<and> uncatchedNext (snd (next_msg 0 (plain_reply 99) new_subject)) = Some (plain_reply 99)
   \<and> promise (snd (waitNext 0 42 None (snd (next_msg 0 (plain_reply 99) new_subject)))) 0 =
       Some (Rejected (UnexpectedMessageType (ExpectedType 42) 99))"
  using waitNext_type_matching
    [where s = new_subject and ack = 0 and ty = 42 and sch = None and m = "plain_reply 99"]
    waitNext_type_matching
    [where s = "snd (next_msg 0 (plain_reply 99) new_subject)" and ack = 0 and ty = 42
       and sch = None and m = "plain_reply 99"]
    waitNext_type_matching
    [where s = new_subject and ack = 0 and ty = 42 and sch = None and m = "plain_reply 42"]
    waitNext_then_next(2) [where s = new_subject and ack = 0 and m = "plain_reply 42" and ty = 42 and sch = None]
  by (simp add: Let_def accessor_fst sample_fields new_subject_def next_msg_def call_listener_def)

subsection \<open>C6: deliveries after a terminal outcome\<close>



subsection \<open>C7: error-tagged replies\<close>

text \<open>
  Claim C7, as amended. An error-tagged reply delivered while \<^verbatim>\<open>ackThenClose\<close>,
  \<^verbatim>\<open>waitNext(ty)\<close> or \<^verbatim>\<open>firstThenClose(ty)\<close> awaits, and whose type is not the expected one,
  rejects the promise with the carried error, and \<^verbatim>\<open>release\<close> is invoked (once by
  \<^verbatim>\<open>ackThenClose\<close> and \<^verbatim>\<open>waitNext\<close>). \<^verbatim>\<open>waitNextMessage\<close> resolves with the message itself and
  does not release.
\<close>

theorem error_reply_outcomes:
  assumes "uncatchedNext s = None" and "isError m"
  shows "(mtype m \<noteq> ack \<longrightarrow>
            (let p = fst (ackThenClose ack s); r = next_msg ack m (snd (ackThenClose ack s))
             in fst r = None \<and> promise (snd r) p = Some (Rejected (getError m))
                \<and> released (snd r) = released s + 1))
       \<and> (mtype m \<noteq> ty \<longrightarrow>
            (let p = fst (waitNext ack ty sch s); r = next_msg ack m (snd (waitNext ack ty sch s))
             in fst r = None \<and> promise (snd r) p = Some (Rejected (getError m))
                \<and> released (snd r) = released s + 1))
       \<and> (mtype m \<noteq> ty \<longrightarrow>
            (let p = fst (firstThenClose ack ty sch s);
                 r = next_msg ack m (snd (firstThenClose ack ty sch s))
             in fst r = None \<and> promise (snd r) p = Some (Rejected (getError m))
                \<and> released s < released (snd r)))
       \<and> (let p = fst (waitNextMessage ack s); r = next_msg ack m (snd (waitNextMessage ack s))
          in fst r = None \<and> promise (snd r) p = Some (Resolved (RawMessage m))
             \<and> released (snd r) = released s)"
  using assms
  by (simp add: Let_def accessor_fst ackThenClose_then_next waitNext_then_next
      firstThenClose_then_next waitNextMessage_then_next)

text \<open>
On a new subject, with an error reply of type 1, Ack being 0 and type 5 expected.
\<close>

theorem error_reply_outcomes_witness:
  "uncatchedNext new_subject = None \<and> isError (error_reply 1)
   \<and> mtype (error_reply 1) \<noteq> 0 \<and> mtype (error_reply 1) \<noteq> 5
   \<and> promise (snd (next_msg 0 (error_reply 1) (snd (ackThenClose 0 new_subject)))) 0 =
       Some (Rejected (ExternalError 7))
   \<and> released (snd (next_msg 0 (error_reply 1) (snd (ackThenClose 0 new_subject)))) = 1
   \<and> promise (snd (next_msg 0 (error_reply 1) (snd (waitNext 0 5 None new_subject)))) 0 =
       Some (Rejected (ExternalError 7))
   \<and> released (snd (next_msg 0 (error_reply 1) (snd (waitNext 0 5 None new_subject)))) = 1
   \<and> promise (snd (next_msg 0 (error_reply 1) (snd (firstThenClose 0 5 None new_subject)))) 0 =
       Some (Rejected (ExternalError 7))
   \<and> 0 < released (snd (next_msg 0 (error_reply 1) (snd (firstThenClose 0 5 None new_subject))))
   \<and> promise (snd (next_msg 0 (error_reply 1) (snd (waitNextMessage 0 new_subject)))) 0 =
       Some (Resolved (RawMessage (error_reply 1)))"
  using error_reply_outcomes
    [where s = new_subject and m = "error_reply 1" and ack = 0 and ty = 5 and sch = None]
  by (simp add: Let_def accessor_fst sample_fields new_subject_def)

text \<open>
  Claim C7 as stated covers all four accessors. After \<^verbatim>\<open>waitNextMessage()\<close> and an
  error-tagged reply the promise is resolved with the message and \<^verbatim>\<open>release\<close> has not been
  invoked.
\<close>

theorem error_reply_counterexample:
  "isError (error_reply 1)
   \<and> promise (snd (next_msg 0 (error_reply 1) (snd (waitNextMessage 0 new_subject)))) 0 =
       Some (Resolved (RawMessage (error_reply 1)))
   \<and> released (snd (next_msg 0 (error_reply 1) (snd (waitNextMessage 0 new_subject)))) = 0"
  by (simp add: method_defs listener_defs promise_defs sample_fields)

subsection \<open>C8: a body that does not parse\<close>

text \<open>
  Claim C8, evaluated. \<^verbatim>\<open>waitNext(5, schema)\<close> awaits on a new subject and a reply of type 5
  arrives whose body does not parse: the parse error escapes from \<^verbatim>\<open>next\<close> and the promise
  stays pending. On the same input \<^verbatim>\<open>firstThenClose\<close> catches the error, rejects the promise
  with it and has released once.
\<close>

theorem waitNext_parse_error_escapes:
  "mtype (unparsable_reply 5) = 5
   \<and> parseBody (unparsable_reply 5) 3 = Inl (ExternalError 9)
   \<and> fst (next_msg 0 (unparsable_reply 5) (snd (waitNext 0 5 (Some 3) new_subject))) =
       Some (ExternalError 9)
   \<and> promise (snd (next_msg 0 (unparsable_reply 5) (snd (waitNext 0 5 (Some 3) new_subject)))) 0 =
       None
   \<and> fst (next_msg 0 (unparsable_reply 5) (snd (firstThenClose 0 5 (Some 3) new_subject))) = None
   \<and> promise (snd (next_msg 0 (unparsable_reply 5) (snd (firstThenClose 0 5 (Some 3) new_subject)))) 0 =
       Some (Rejected (ExternalError 9))
   \<and> released (snd (next_msg 0 (unparsable_reply 5) (snd (firstThenClose 0 5 (Some 3) new_subject)))) = 1"
  by (simp add: method_defs listener_defs promise_defs sample_fields)

subsection \<open>C9: the type is checked before the error tag\<close>

text \<open>
  Claim C9, as amended. An error-tagged reply of the expected type, delivered while
  \<^verbatim>\<open>waitNext\<close> or \<^verbatim>\<open>firstThenClose\<close> awaits with no schema or with a schema under which
  the body parses, takes the branch of the type match: the promise is resolved (with
  nothing, resp. the message itself, without schema; with the parsed body with one), the
  carried error is not used, and the release of the error branch does not happen.
\<close>

theorem expected_type_checked_before_error_tag:
  assumes "uncatchedNext s = None" and "isError m" and "mtype m = ty"
    and "sch = None \<or> (\<exists>sc. sch = Some sc \<and> parseBody m sc = Inr b)"
  shows "(let p = fst (waitNext ack ty sch s); r = next_msg ack m (snd (waitNext ack ty sch s))
          in fst r = None
             \<and> promise (snd r) p =
                 Some (Resolved (case sch of None \<Rightarrow> Undefined | Some sc \<Rightarrow> Parsed b))
             \<and> released (snd r) = released s)
       \<and> (let p = fst (firstThenClose ack ty sch s);
              r = next_msg ack m (snd (firstThenClose ack ty sch s))
          in fst r = None
             \<and> promise (snd r) p =
                 Some (Resolved (case sch of None \<Rightarrow> RawMessage m | Some sc \<Rightarrow> Parsed b))
             \<and> released (snd r) = released s + 1)"
  using assms
  by (auto simp add: Let_def accessor_fst waitNext_then_next firstThenClose_then_next)

text \<open>
  On a new subject, with an error-tagged reply of the expected type 5 whose body parses
  to 11, with and without schema.
\<close>

theorem expected_type_checked_before_error_tag_witness:
  "uncatchedNext new_subject = None \<and> isError (error_reply 5) \<and> mtype (error_reply 5) = 5
   \<and> parseBody (error_reply 5) 3 = Inr 11
   \<and> promise (snd (next_msg 0 (error_reply 5) (snd (waitNext 0 5 (Some 3) new_subject)))) 0 =
       Some (Resolved (Parsed 11))
   \<and> released (snd (next_msg 0 (error_reply 5) (snd (waitNext 0 5 (Some 3) new_subject)))) = 0
   \<and> promise (snd (next_msg 0 (error_reply 5) (snd (firstThenClose 0 5 (Some 3) new_subject)))) 0 =
       Some (Resolved (Parsed 11))
   \<and> released (snd (next_msg 0 (error_reply 5) (snd (firstThenClose 0 5 (Some 3) new_subject)))) = 1
   \<and> promise (snd (next_msg 0 (error_reply 5) (snd (waitNext 0 5 None new_subject)))) 0 =
       Some (Resolved Undefined)
   \<and> promise (snd (next_msg 0 (error_reply 5) (snd (firstThenClose 0 5 None new_subject)))) 0 =
       Some (Resolved (RawMessage (error_reply 5)))"
  using expected_type_checked_before_error_tag
    [where s = new_subject and m = "error_reply 5" and ack = 0 and ty = 5 and sch = "Some 3"
       and b = 11]
    expected_type_checked_before_error_tag
    [where s = new_subject and m = "error_reply 5" and ack = 0 and ty = 5 and sch = None
       and b = 11]
  by (simp add: Let_def accessor_fst sample_fields new_subject_def)

text \<open>
  Claim C9 as stated has every error-tagged reply of the expected type resolve. After
  \<^verbatim>\<open>firstThenClose(5, schema)\<close> on a new subject, an error-tagged reply of type 5 whose body
  does not parse takes the branch of the type match, where the parse error is caught:
  the promise is rejected with the parse error.
\<close>

theorem expected_type_unparsable_counterexample:
  "isError (unparsable_error_reply 5) \<and> mtype (unparsable_error_reply 5) = 5
   \<and> fst (next_msg 0 (unparsable_error_reply 5)
         (snd (firstThenClose 0 5 (Some 3) new_subject))) = None
   \<and> promise (snd (next_msg 0 (unparsable_error_reply 5)
         (snd (firstThenClose 0 5 (Some 3) new_subject)))) 0 =
       Some (Rejected (ExternalError 9))"
  by (simp add: method_defs listener_defs promise_defs sample_fields)

subsection \<open>C10: the rejection callback after a reply\<close>

text \<open>
  Claim C10. Once the listener of \<^verbatim>\<open>ackThenClose\<close> has handled a reply, \<^verbatim>\<open>rejected\<close> is
  cleared and a later \<^verbatim>\<open>disconnect\<close> invokes no rejection callback. Once the listener of
  \<^verbatim>\<open>waitNextMessage\<close>, \<^verbatim>\<open>waitNext\<close> or \<^verbatim>\<open>firstThenClose\<close> has handled a reply, \<^verbatim>\<open>rejected\<close>
  still holds the \<^verbatim>\<open>reject\<close> of that accessor's promise, and a later \<^verbatim>\<open>disconnect\<close> invokes it
  with the disconnect error.
\<close>

theorem rejection_callback_after_settlement:
  assumes "uncatchedNext s = None"
  shows "(let s2 = snd (next_msg ack m (snd (ackThenClose ack s)))
          in rejected s2 = None
             \<and> rejectCalls (disconnect error s2) = rejectCalls s2)
       \<and> (let s2 = snd (next_msg ack m (snd (waitNextMessage ack s)))
          in rejected s2 = Some (RejectPromise (fst (waitNextMessage ack s)))
             \<and> rejectCalls (disconnect error s2) =
                 rejectCalls s2 @ [(RejectPromise (fst (waitNextMessage ack s)), disconnect_error error)])
       \<and> (let s2 = snd (next_msg ack m (snd (waitNext ack ty sch s)))
          in rejected s2 = Some (RejectPromise (fst (waitNext ack ty sch s)))
             \<and> rejectCalls (disconnect error s2) =
                 rejectCalls s2 @ [(RejectPromise (fst (waitNext ack ty sch s)), disconnect_error error)])
       \<and> (let s2 = snd (next_msg ack m (snd (firstThenClose ack ty sch s)))
          in rejected s2 = Some (RejectPromise (fst (firstThenClose ack ty sch s)))
             \<and> rejectCalls (disconnect error s2) =
                 rejectCalls s2 @ [(RejectPromise (fst (firstThenClose ack ty sch s)), disconnect_error error)])"
  using assms
  by (simp add: Let_def disconnect_rejectCalls accessor_fst ackThenClose_then_next
      waitNextMessage_then_next waitNext_then_next firstThenClose_then_next)

text \<open>
On a new subject, with a reply that resolves each accessor, then a disconnect without error.
\<close>

theorem rejection_callback_after_settlement_witness:
  "uncatchedNext new_subject = None
   \<and> rejectCalls (disconnect None (snd (next_msg 0 (plain_reply 0) (snd (ackThenClose 0 new_subject))))) = []
   \<and> rejectCalls (disconnect None (snd (next_msg 0 (plain_reply 0) (snd (waitNextMessage 0 new_subject))))) =
       [(RejectPromise 0, RpcError ''Connection closed'')]
   \<and> rejectCalls (disconnect None (snd (next_msg 0 (plain_reply 5) (snd (waitNext 0 5 None new_subject))))) =
       [(RejectPromise 0, RpcError ''Connection closed'')]
   \<and> rejectCalls (disconnect None (snd (next_msg 0 (plain_reply 5) (snd (firstThenClose 0 5 None new_subject))))) =
       [(RejectPromise 0, RpcError ''Connection closed'')]"
  using rejection_callback_after_settlement [of new_subject 0 "plain_reply 0" None 5 None]
    rejection_callback_after_settlement [of new_subject 0 "plain_reply 5" None 5 None]
    ackThenClose_then_next(7) [of new_subject 0 "plain_reply 0"]
    waitNextMessage_then_next(7) [of new_subject 0 "plain_reply 0"]
    waitNext_then_next(7) [of new_subject 0 "plain_reply 5" 5 None]
    firstThenClose_then_next(7) [of new_subject 0 "plain_reply 5" 5 None]
  by (simp add: Let_def accessor_fst disconnect_error_def new_subject_def)

end
